theory Spec2Isabelle
  imports Main
begin

section \<open>The task controller of storyboard (storyboard/api/v1/tasks.py)\<close>

text \<open>
  The controller maps HTTP verbs on tasks to calls of the persistence API
  (\<open>storyboard.db.api.tasks\<close>) and of the event sink
  (\<open>storyboard.db.api.timeline_events\<close>). Python objects with nullable attributes
  become records with \<open>option\<close> fields, exceptions become the left summand of a
  sum type, and the ambient objects \<open>CONF\<close>, \<open>request\<close> and \<open>response\<close> are passed
  explicitly.
\<close>

subsection \<open>Data model\<close>

text \<open>
  \<open>class Task(base.APIBase)\<close>. The attribute \<open>id\<close> is inherited from
  \<open>APIBase\<close>; it is called \<open>ident\<close> here since \<open>id\<close> is the identity function of
  HOL. A row of the tasks table carries the same columns, so one record serves for
  both the API object and the database model.
\<close>

record task =
  ident :: int
  title :: string
  status :: string
  is_active :: bool
  creator_id :: "int option"
  story_id :: "int option"
  project_id :: "int option"
  assignee_id :: "int option"
  priority :: string

text \<open>
  \<open>Task.from_db_model\<close> and \<open>as_dict\<close> are inherited from \<open>base.APIBase\<close>: they
  copy the columns of a row into an API object and the attributes of an API object
  into a dictionary. With one record for all three they are the identity.
\<close>

definition from_db_model :: "task \<Rightarrow> task" where
  "from_db_model t = t"

definition as_dict :: "task \<Rightarrow> task" where
  "as_dict t = t"

text \<open>
  The keyword arguments of the emitters of the event sink, one constructor for each
  emitter: story id, task title, author id, then the old and the new value.
\<close>

datatype timeline_event =
    task_created "int option" string int
  | task_status_changed "int option" string int string string
  | task_priority_changed "int option" string int string string
  | task_assignee_changed "int option" string int "int option" "int option"
  | task_details_changed "int option" string int
  | task_deleted "int option" string int

text \<open>
  The effects of a request on the outside world, in the order in which they happen:
  an event handed to the event sink, a row inserted into the tasks table, a row
  removed from it.
\<close>

datatype effect =
    Emitted timeline_event
  | Row_inserted int
  | Row_deleted int

record world =
  rows :: "task list"
  next_id :: int
  journal :: "effect list"

text \<open>
  \<open>wsme.exc.ClientSideError(msg, status_code)\<close> keeps its arguments in the
  attributes \<open>msg\<close> and \<open>code\<close>. \<open>AttributeError\<close> is what Python raises when an
  attribute of \<open>None\<close> is read; it carries the name of that attribute.
\<close>

datatype error =
    ClientSideError (msg: "string option") (code: "int option")
  | AttributeError string

text \<open>\<open>storyboard/common/exception.py\<close>: the constructors pass on to the base class.\<close>

definition StoryboardException :: "string option \<Rightarrow> int option \<Rightarrow> error" where
  "StoryboardException message status_code' = ClientSideError message status_code'"

definition NotFound :: "string option \<Rightarrow> error" where
  "NotFound message = StoryboardException message (Some 404)"

record config =
  page_size_default :: int
  page_size_maximum :: int

text \<open>
  \<open>request.current_user_id\<close>. The handlers that read it run behind
  \<open>secure(checks.authenticated)\<close>, so it is the id of the acting user.
\<close>

record request =
  current_user_id :: int

record response =
  headers :: "string \<rightharpoonup> string"
  status_code :: int

subsection \<open>Python's \<open>str\<close> on integers\<close>

definition digit_char :: "nat \<Rightarrow> char" where
  "digit_char d = ''0123456789'' ! d"

function str_nat :: "nat \<Rightarrow> string" where
  "str_nat n = (if n < 10 then [digit_char n] else str_nat (n div 10) @ [digit_char (n mod 10)])"
  by pat_completeness auto
termination
  by (relation "measure (\<lambda>n. n)") auto

declare str_nat.simps [simp del]

definition str :: "int \<Rightarrow> string" where
  "str i = (if i < 0 then CHR ''-'' # str_nat (nat (- i)) else str_nat (nat i))"

subsection \<open>The persistence API and the event sink\<close>

text \<open>
  Modelled from the spec: \<open>task_get\<close> of \<open>storyboard.db.api.tasks\<close>, which is not
  among the sources. It resolves an id to the task stored under it, and to \<open>None\<close>
  when there is no such task; an absent id resolves to no task.
\<close>

definition task_get :: "world \<Rightarrow> int option \<Rightarrow> task option" where
  "task_get w task_id =
     (case task_id of
        None \<Rightarrow> None
      | Some i \<Rightarrow> find (\<lambda>t. ident t = i) (rows w))"

text \<open>
  Modelled from the spec: the filters of \<open>task_get_all\<close> and \<open>task_get_count\<close>. A
  filter that is not supplied selects every row, a supplied one the rows with that
  story or assignee.
\<close>

definition matches :: "int option \<Rightarrow> int option \<Rightarrow> task \<Rightarrow> bool" where
  "matches story assignee t \<longleftrightarrow>
     (story = None \<or> story_id t = story) \<and> (assignee = None \<or> assignee_id t = assignee)"

text \<open>
  Modelled from the spec: \<open>task_get_count\<close> of \<open>storyboard.db.api.tasks\<close>, which
  counts all rows matching the story and assignee filters.
\<close>

definition task_get_count :: "world \<Rightarrow> int option \<Rightarrow> int option \<Rightarrow> nat" where
  "task_get_count w assignee story = length (filter (matches story assignee) (rows w))"

text \<open>
  Modelled from the spec: \<open>task_create\<close> of \<open>storyboard.db.api.tasks\<close>. The store
  assigns the numeric id and keeps the other values as they are given.
\<close>

definition task_create :: "task \<Rightarrow> world \<Rightarrow> task \<times> world" where
  "task_create values w =
     (let created = values\<lparr>ident := next_id w\<rparr>
      in (created,
          w\<lparr>rows := rows w @ [created],
            next_id := next_id w + 1,
            journal := journal w @ [Row_inserted (next_id w)]\<rparr>))"

text \<open>
  Modelled from the spec: \<open>task_delete\<close> of \<open>storyboard.db.api.tasks\<close>, a
  destructive removal of the record from the store.
\<close>

definition task_delete :: "int \<Rightarrow> world \<Rightarrow> world" where
  "task_delete task_id w =
     w\<lparr>rows := filter (\<lambda>t. ident t \<noteq> task_id) (rows w),
       journal := journal w @ [Row_deleted task_id]\<rparr>"

text \<open>
  Modelled from the spec: the emitters of \<open>storyboard.db.api.timeline_events\<close>.
  Each appends one immutable audit record of its kind, carrying the arguments it is
  called with.
\<close>

definition emit :: "timeline_event \<Rightarrow> world \<Rightarrow> world" where
  "emit e w = w\<lparr>journal := journal w @ [Emitted e]\<rparr>"

definition task_created_event :: "int option \<Rightarrow> string \<Rightarrow> int \<Rightarrow> world \<Rightarrow> world" where
  "task_created_event story task_title author_id = emit (task_created story task_title author_id)"

definition task_status_changed_event ::
  "int option \<Rightarrow> string \<Rightarrow> int \<Rightarrow> string \<Rightarrow> string \<Rightarrow> world \<Rightarrow> world" where
  "task_status_changed_event story task_title author_id old_status new_status =
     emit (task_status_changed story task_title author_id old_status new_status)"

definition task_priority_changed_event ::
  "int option \<Rightarrow> string \<Rightarrow> int \<Rightarrow> string \<Rightarrow> string \<Rightarrow> world \<Rightarrow> world" where
  "task_priority_changed_event story task_title author_id old_priority new_priority =
     emit (task_priority_changed story task_title author_id old_priority new_priority)"

definition task_assignee_changed_event ::
  "int option \<Rightarrow> string \<Rightarrow> int \<Rightarrow> int option \<Rightarrow> int option \<Rightarrow> world \<Rightarrow> world" where
  "task_assignee_changed_event story task_title author_id old_assignee_id new_assignee_id =
     emit (task_assignee_changed story task_title author_id old_assignee_id new_assignee_id)"

definition task_details_changed_event :: "int option \<Rightarrow> string \<Rightarrow> int \<Rightarrow> world \<Rightarrow> world" where
  "task_details_changed_event story task_title author_id =
     emit (task_details_changed story task_title author_id)"

definition task_deleted_event :: "int option \<Rightarrow> string \<Rightarrow> int \<Rightarrow> world \<Rightarrow> world" where
  "task_deleted_event story task_title author_id = emit (task_deleted story task_title author_id)"

text \<open>
  \<open>task_get_all\<close> of \<open>storyboard.db.api.tasks\<close> is not among the sources either,
  and its ordering, its treatment of the cursor and its answer to an unknown sort key
  are not needed below: the controller takes it as a parameter of this type (the
  store, then the keyword arguments \<open>marker\<close>, \<open>limit\<close>, \<open>assignee_id\<close>,
  \<open>story_id\<close>, \<open>sort_field\<close>, \<open>sort_dir\<close>), and may receive an error from it.
\<close>

type_synonym query =
  "world \<Rightarrow> task option \<Rightarrow> int \<Rightarrow> int option \<Rightarrow> int option \<Rightarrow> string \<Rightarrow> string
     \<Rightarrow> error + task list"

subsection \<open>\<open>TasksController\<close>\<close>

text \<open>
  \<open>get_one\<close>. The message is formatted with Python's builtin \<open>id\<close>, not with
  \<open>task_id\<close>.
\<close>

definition get_one :: "world \<Rightarrow> int \<Rightarrow> error + task" where
  "get_one w task_id =
     (case task_get w (Some task_id) of
        Some t \<Rightarrow> Inr (from_db_model t)
      | None \<Rightarrow>
          Inl (ClientSideError (Some ''Task <built-in function id> not found'') (Some 404)))"

text \<open>\<open>get_all\<close>, the boundary check on the limit (lines 102 to 105).\<close>

definition effective_limit :: "config \<Rightarrow> int option \<Rightarrow> int" where
  "effective_limit CONF limit =
     (let limit = (case limit of None \<Rightarrow> page_size_default CONF | Some l \<Rightarrow> l)
      in min (page_size_maximum CONF) (max 1 limit))"

text \<open>\<open>get_all\<close>, the resolution of the marker record (lines 107 to 111).\<close>

definition resolve_marker :: "world \<Rightarrow> int option \<Rightarrow> int option \<Rightarrow> task option" where
  "resolve_marker w story marker =
     (case task_get w marker of
        None \<Rightarrow> None
      | Some marker_task \<Rightarrow> if story_id marker_task \<noteq> story then None else Some marker_task)"

text \<open>
  \<open>get_all\<close>. The arguments \<open>sort_field\<close> and \<open>sort_dir\<close> default to \<open>'id'\<close> and
  \<open>'asc'\<close> when the caller does not supply them. An error of the query leaves
  before the headers are written.
\<close>

definition get_all ::
  "query \<Rightarrow> config \<Rightarrow> world \<Rightarrow> response \<Rightarrow> int option \<Rightarrow> int option \<Rightarrow> int option
     \<Rightarrow> int option \<Rightarrow> string option \<Rightarrow> string option \<Rightarrow> error + task list \<times> response" where
  "get_all task_get_all CONF w resp story assignee marker limit sort_field sort_dir =
     (let sort_field = (case sort_field of None \<Rightarrow> ''id'' | Some f \<Rightarrow> f);
          sort_dir = (case sort_dir of None \<Rightarrow> ''asc'' | Some d \<Rightarrow> d);
          limit = effective_limit CONF limit;
          marker_task = resolve_marker w story marker
      in case task_get_all w marker_task limit assignee story sort_field sort_dir of
           Inl e \<Rightarrow> Inl e
         | Inr tasks \<Rightarrow>
             (let task_count = task_get_count w assignee story;
                  resp = resp\<lparr>headers := (headers resp)(''X-Limit'' \<mapsto> str limit)\<rparr>;
                  resp = resp\<lparr>headers := (headers resp)(''X-Total'' \<mapsto> str (int task_count))\<rparr>;
                  resp = (case marker_task of
                            None \<Rightarrow> resp
                          | Some m \<Rightarrow>
                              resp\<lparr>headers := (headers resp)(''X-Marker'' \<mapsto> str (ident m))\<rparr>)
              in Inr (map from_db_model tasks, resp)))"

text \<open>\<open>post\<close>: the creator is taken from the request and written over the body's.\<close>

definition post :: "request \<Rightarrow> world \<Rightarrow> task \<Rightarrow> task \<times> world" where
  "post req w body =
     (let creator = current_user_id req;
          body = body\<lparr>creator_id := Some creator\<rparr>;
          (created_task, w) = task_create (as_dict body) w;
          w = task_created_event (story_id body) (title created_task) creator w
      in (from_db_model created_task, w))"

text \<open>
  \<open>_post_timeline_events\<close>: three comparisons in a fixed order, each emitting its
  event and setting the flag \<open>specific_change\<close>, then the fallback when the flag is
  still unset. The state threaded through is the world and the flag.
\<close>

definition post_timeline_events :: "request \<Rightarrow> task \<Rightarrow> task \<Rightarrow> world \<Rightarrow> world" where
  "post_timeline_events req original_task updated_task w =
     (let author_id = current_user_id req;
          specific_change = False;
          (w, specific_change) =
            (if status original_task \<noteq> status updated_task
             then (task_status_changed_event (story_id original_task) (title original_task)
                     author_id (status original_task) (status updated_task) w, True)
             else (w, specific_change));
          (w, specific_change) =
            (if priority original_task \<noteq> priority updated_task
             then (task_priority_changed_event (story_id original_task) (title original_task)
                     author_id (priority original_task) (priority updated_task) w, True)
             else (w, specific_change));
          (w, specific_change) =
            (if assignee_id original_task \<noteq> assignee_id updated_task
             then (task_assignee_changed_event (story_id original_task) (title original_task)
                     author_id (assignee_id original_task) (assignee_id updated_task) w, True)
             else (w, specific_change))
      in if \<not> specific_change
         then task_details_changed_event (story_id original_task) (title original_task)
                author_id w
         else w)"

text \<open>
  The body of \<open>delete\<close> (lines 216 to 225). The snapshot is read without a test for
  \<open>None\<close>: on a missing task the first attribute access raises \<open>AttributeError\<close>,
  before anything is emitted or removed.
\<close>

definition delete_body ::
  "request \<Rightarrow> world \<Rightarrow> response \<Rightarrow> int \<Rightarrow> error + world \<times> response" where
  "delete_body req w resp task_id =
     (case task_get w (Some task_id) of
        None \<Rightarrow> Inl (AttributeError ''story_id'')
      | Some original_task \<Rightarrow>
          (let w = task_deleted_event (story_id original_task) (title original_task)
                     (current_user_id req) w;
               w = task_delete task_id w;
               resp = resp\<lparr>status_code := 204\<rparr>
           in Inr (w, resp)))"

text \<open>
  The decorator \<open>wsme_pecan.wsexpose\<close> of the WSME library, as far as the response
  status goes. When the decorated function has returned, the wrapper writes the
  status code of the signature into the response, over what the function wrote
  there; that code is 200 unless the decorator is given \<open>status_code=\<close>. An
  exception of the function is passed on as it is: its rendering as a fault response
  belongs to the transport. The other handlers are exposed in the same way; their
  bodies do not write the status, so the wrapper is written out for \<open>delete\<close> only.
\<close>

definition wsexpose :: "int \<Rightarrow> error + 'a \<times> response \<Rightarrow> error + 'a \<times> response" where
  "wsexpose signature_status result =
     (case result of
        Inl e \<Rightarrow> Inl e
      | Inr (x, resp) \<Rightarrow> Inr (x, resp\<lparr>status_code := signature_status\<rparr>))"

text \<open>
  \<open>delete\<close> as the controller exposes it: \<open>@wsme_pecan.wsexpose(Task, int)\<close>, with no
  \<open>status_code=\<close>, around the body.
\<close>

definition delete :: "request \<Rightarrow> world \<Rightarrow> response \<Rightarrow> int \<Rightarrow> error + world \<times> response" where
  "delete req w resp task_id = wsexpose 200 (delete_body req w resp task_id)"

subsection \<open>A store and a query to run the controller on\<close>

text \<open>
  A query that pages through the table in the order of its rows: the rows matching
  the filters, after the row of the marker when there is one, \<open>limit\<close> of them at
  most. It pays no attention to the sort arguments and raises nothing.
\<close>

definition table_page :: query where
  "table_page w marker_task limit assignee story sort_field sort_dir =
     Inr (take (nat limit)
            (filter (matches story assignee)
               (case marker_task of
                  None \<Rightarrow> rows w
                | Some m \<Rightarrow> drop 1 (dropWhile (\<lambda>t. ident t \<noteq> ident m) (rows w)))))"

definition demo_conf :: config where
  "demo_conf = \<lparr>page_size_default = 20, page_size_maximum = 500\<rparr>"

definition demo_task :: "int \<Rightarrow> int \<Rightarrow> string \<Rightarrow> task" where
  "demo_task i s name =
     \<lparr>ident = i, title = name, status = ''todo'', is_active = True, creator_id = Some 42,
      story_id = Some s, project_id = Some 1, assignee_id = None, priority = ''low''\<rparr>"

definition demo_world :: world where
  "demo_world =
     \<lparr>rows = [demo_task 1 1 ''parse'', demo_task 2 2 ''print'', demo_task 7 3 ''ship''],
      next_id = 8, journal = []\<rparr>"

definition fresh_response :: response where
  "fresh_response = \<lparr>headers = Map.empty, status_code = 200\<rparr>"

definition demo_request :: request where
  "demo_request = \<lparr>current_user_id = 42\<rparr>"

text \<open>The sample store after a \<open>post\<close> whose body names no story: the task gets id 8.\<close>

definition storyless_world :: world where
  "storyless_world =
     snd (post demo_request demo_world ((demo_task 0 3 ''plan'')\<lparr>story_id := None\<rparr>))"

section \<open>Properties of the controller\<close>

subsection \<open>Listing tasks\<close>

lemma resolve_marker_None: "resolve_marker w story None = None"
  by (simp add: resolve_marker_def task_get_def)

lemma resolve_marker_mismatch:
  "task_get w marker = Some t \<Longrightarrow> story_id t \<noteq> story \<Longrightarrow> resolve_marker w story marker = None"
  by (simp add: resolve_marker_def)

lemma resolve_marker_match:
  "task_get w marker = Some t \<Longrightarrow> story_id t = story \<Longrightarrow> resolve_marker w story marker = Some t"
  by (simp add: resolve_marker_def)

lemma get_all_marker_cong:
  "resolve_marker w story marker = resolve_marker w story marker' \<Longrightarrow>
   get_all q CONF w resp story assignee marker limit sort_field sort_dir =
   get_all q CONF w resp story assignee marker' limit sort_field sort_dir"
  by (simp add: get_all_def)

lemma get_all_headers:
  assumes "get_all q CONF w resp story assignee marker limit sort_field sort_dir = Inr (page, r)"
  shows "headers r ''X-Limit'' = Some (str (effective_limit CONF limit))"
    and "headers r ''X-Total'' = Some (str (int (task_get_count w assignee story)))"
    and "headers r ''X-Marker'' =
           (case resolve_marker w story marker of
              None \<Rightarrow> headers resp ''X-Marker''
            | Some m \<Rightarrow> Some (str (ident m)))"
  using assms
  by (auto simp add: get_all_def Let_def split: sum.splits option.splits)

lemma get_all_error:
  assumes "get_all q CONF w resp story assignee marker limit sort_field sort_dir = Inl e"
  shows "q w (resolve_marker w story marker) (effective_limit CONF limit) assignee story
           (case sort_field of None \<Rightarrow> ''id'' | Some f \<Rightarrow> f)
           (case sort_dir of None \<Rightarrow> ''asc'' | Some d \<Rightarrow> d) = Inl e"
  using assms
  by (auto simp add: get_all_def Let_def split: sum.splits option.splits)

lemma effective_limit_idem:
  "effective_limit CONF (Some (effective_limit CONF limit)) = effective_limit CONF limit"
  by (simp add: effective_limit_def Let_def split: option.splits)

text \<open>
  Claim C1. When the marker id resolves to a task whose \<open>story_id\<close> differs from the
  story filter of the request, the marker is dropped: \<open>get_all\<close> returns the same
  page and the same headers as the call without a marker, sets no \<open>X-Marker\<close>
  header, and fails only where the call without a marker fails.
\<close>

theorem marker_of_other_story_is_discarded:
  assumes "task_get w (Some m) = Some t" and "story_id t \<noteq> story"
  shows "resolve_marker w story (Some m) = None \<and>
         get_all q CONF w resp story assignee (Some m) limit sort_field sort_dir =
         get_all q CONF w resp story assignee None limit sort_field sort_dir \<and>
         (case get_all q CONF w resp story assignee (Some m) limit sort_field sort_dir of
            Inl e \<Rightarrow> get_all q CONF w resp story assignee None limit sort_field sort_dir = Inl e
          | Inr (page, r) \<Rightarrow> headers r ''X-Marker'' = headers resp ''X-Marker'')"
proof -
  have none: "resolve_marker w story (Some m) = None"
    using assms by (rule resolve_marker_mismatch)
  then have same: "get_all q CONF w resp story assignee (Some m) limit sort_field sort_dir =
      get_all q CONF w resp story assignee None limit sort_field sort_dir"
    by (intro get_all_marker_cong) (simp add: resolve_marker_None)
  have "headers r ''X-Marker'' = headers resp ''X-Marker''"
    if "get_all q CONF w resp story assignee (Some m) limit sort_field sort_dir = Inr (page, r)"
    for page r
    using get_all_headers(3) [OF that] none by simp
  with none same show ?thesis
    by (auto split: sum.splits)
qed

theorem marker_of_other_story_is_discarded_witness:
  "task_get demo_world (Some 2) = Some (demo_task 2 2 ''print'') \<and>
   story_id (demo_task 2 2 ''print'') \<noteq> Some 1 \<and>
   get_all table_page demo_conf demo_world fresh_response (Some 1) None (Some 2) (Some 5) None None =
   get_all table_page demo_conf demo_world fresh_response (Some 1) None None (Some 5) None None \<and>
   get_all table_page demo_conf demo_world fresh_response (Some 1) None None (Some 5) None None =
   Inr ([demo_task 1 1 ''parse''],
        \<lparr>headers = [''X-Limit'' \<mapsto> ''5'', ''X-Total'' \<mapsto> ''1''], status_code = 200\<rparr>)"
proof -
  have a: "task_get demo_world (Some 2) = Some (demo_task 2 2 ''print'')"
    by (simp add: task_get_def demo_world_def demo_task_def)
  have b: "story_id (demo_task 2 2 ''print'') \<noteq> Some 1"
    by (simp add: demo_task_def)
  have c: "get_all table_page demo_conf demo_world fresh_response (Some 1) None None (Some 5) None None =
   Inr ([demo_task 1 1 ''parse''],
        \<lparr>headers = [''X-Limit'' \<mapsto> ''5'', ''X-Total'' \<mapsto> ''1''], status_code = 200\<rparr>)"
    by (simp add: get_all_def table_page_def demo_conf_def demo_world_def fresh_response_def
        demo_task_def effective_limit_def resolve_marker_def task_get_def task_get_count_def
        matches_def from_db_model_def str_def str_nat.simps digit_char_def)
  from marker_of_other_story_is_discarded [OF a b, of table_page demo_conf fresh_response None "Some 5" None None]
    a b c show ?thesis by simp
qed

text \<open>
  Claim C2, as stated, says that without a limit the effective limit is the
  configured default. The boundary check is applied after the default has been
  substituted, so a default above the maximum is cut down to the maximum. It also
  says that a limit below 1 yields 1, which a maximum below 1 prevents.
\<close>

theorem default_limit_is_clamped_counterexample:
  "effective_limit \<lparr>page_size_default = 20, page_size_maximum = 10\<rparr> None \<noteq>
   page_size_default \<lparr>page_size_default = 20, page_size_maximum = 10\<rparr> \<and>
   effective_limit \<lparr>page_size_default = 20, page_size_maximum = 0\<rparr> (Some 0) \<noteq> 1"
  by (simp add: effective_limit_def)

text \<open>
  Claim C2, amended. The effective limit is \<open>min maximum (max 1 x)\<close>, where \<open>x\<close> is
  the supplied limit, or the configured default when none is supplied: the default is
  clamped like a supplied limit, and is used unchanged when it lies between 1 and the
  maximum; with a maximum of at least 1 it is used unchanged only then. A limit above
  the maximum yields the maximum; with a maximum of at least 1 a limit below 1 yields
  1 and the effective limit lies between 1 and the maximum.
  No limit raises an error: \<open>get_all\<close> answers a request as it answers the request
  with the clamped limit, the only error it can return is one returned by
  \<open>task_get_all\<close> for the clamped limit, and otherwise \<open>X-Limit\<close> is the
  effective limit.
\<close>

theorem effective_limit_clamps:
  "effective_limit CONF None = min (page_size_maximum CONF) (max 1 (page_size_default CONF)) \<and>
   effective_limit CONF (Some L) = min (page_size_maximum CONF) (max 1 L) \<and>
   (1 \<le> page_size_default CONF \<and> page_size_default CONF \<le> page_size_maximum CONF \<longrightarrow>
      effective_limit CONF None = page_size_default CONF) \<and>
   (1 \<le> page_size_maximum CONF \<longrightarrow>
      (effective_limit CONF None = page_size_default CONF \<longleftrightarrow>
       1 \<le> page_size_default CONF \<and> page_size_default CONF \<le> page_size_maximum CONF)) \<and>
   (page_size_maximum CONF < L1 \<longrightarrow> effective_limit CONF (Some L1) = page_size_maximum CONF) \<and>
   (1 \<le> page_size_maximum CONF \<and> L2 < 1 \<longrightarrow> effective_limit CONF (Some L2) = 1) \<and>
   (1 \<le> L3 \<and> L3 \<le> page_size_maximum CONF \<longrightarrow> effective_limit CONF (Some L3) = L3) \<and>
   (1 \<le> page_size_maximum CONF \<longrightarrow>
      1 \<le> effective_limit CONF limit \<and> effective_limit CONF limit \<le> page_size_maximum CONF) \<and>
   get_all q CONF w resp story assignee marker limit sort_field sort_dir =
   get_all q CONF w resp story assignee marker (Some (effective_limit CONF limit)) sort_field sort_dir \<and>
   (case get_all q CONF w resp story assignee marker limit sort_field sort_dir of
      Inl e \<Rightarrow>
        q w (resolve_marker w story marker) (effective_limit CONF limit) assignee story
          (case sort_field of None \<Rightarrow> ''id'' | Some f \<Rightarrow> f)
          (case sort_dir of None \<Rightarrow> ''asc'' | Some d \<Rightarrow> d) = Inl e
    | Inr (page, r) \<Rightarrow> headers r ''X-Limit'' = Some (str (effective_limit CONF limit)))"
proof -
  have "get_all q CONF w resp story assignee marker limit sort_field sort_dir =
    get_all q CONF w resp story assignee marker (Some (effective_limit CONF limit)) sort_field sort_dir"
    unfolding get_all_def effective_limit_idem ..
  moreover have "case get_all q CONF w resp story assignee marker limit sort_field sort_dir of
      Inl e \<Rightarrow>
        q w (resolve_marker w story marker) (effective_limit CONF limit) assignee story
          (case sort_field of None \<Rightarrow> ''id'' | Some f \<Rightarrow> f)
          (case sort_dir of None \<Rightarrow> ''asc'' | Some d \<Rightarrow> d) = Inl e
    | Inr (page, r) \<Rightarrow> headers r ''X-Limit'' = Some (str (effective_limit CONF limit))"
    by (auto split: sum.splits dest: get_all_error get_all_headers(1))
  moreover have "1 \<le> page_size_maximum CONF \<longrightarrow>
      1 \<le> effective_limit CONF limit \<and> effective_limit CONF limit \<le> page_size_maximum CONF"
    by (simp add: effective_limit_def Let_def split: option.splits)
  moreover have "1 \<le> page_size_maximum CONF \<longrightarrow>
      (effective_limit CONF None = page_size_default CONF \<longleftrightarrow>
       1 \<le> page_size_default CONF \<and> page_size_default CONF \<le> page_size_maximum CONF)"
    by (auto simp add: effective_limit_def)
  ultimately show ?thesis
    by (simp add: effective_limit_def)
qed

theorem effective_limit_clamps_witness:
  "1 \<le> page_size_default demo_conf \<and> page_size_default demo_conf \<le> page_size_maximum demo_conf \<and>
   effective_limit demo_conf None = 20 \<and>
   page_size_maximum demo_conf < 1000 \<and> effective_limit demo_conf (Some 1000) = 500 \<and>
   1 \<le> page_size_maximum demo_conf \<and> (0::int) < 1 \<and> effective_limit demo_conf (Some 0) = 1 \<and>
   (1::int) \<le> 50 \<and> 50 \<le> page_size_maximum demo_conf \<and> effective_limit demo_conf (Some 50) = 50 \<and>
   get_all table_page demo_conf demo_world fresh_response None None None (Some 1000) None None =
   get_all table_page demo_conf demo_world fresh_response None None None (Some 500) None None"
  using effective_limit_clamps [of demo_conf 1000 1000 0 50 "Some 1000" table_page demo_world
      fresh_response None None None None None]
  by (simp add: demo_conf_def)

text \<open>
  Claim C3. For fixed story and assignee filters the \<open>X-Total\<close> header is the same
  whatever the marker, the limit, the sort arguments, the query and the configuration
  are: it is the number of all rows of the table that match the two filters.
\<close>

theorem total_count_ignores_pagination:
  assumes "get_all q CONF w resp story assignee marker limit sort_field sort_dir = Inr (page, r)"
      and "get_all q' CONF' w resp' story assignee marker' limit' sort_field' sort_dir' = Inr (page', r')"
  shows "headers r ''X-Total'' = headers r' ''X-Total'' \<and>
         headers r ''X-Total'' =
           Some (str (int (length (filter (matches story assignee) (rows w)))))"
  using get_all_headers(2) [OF assms(1)] get_all_headers(2) [OF assms(2)]
  by (simp add: task_get_count_def)

text \<open>
  Three runs of \<open>get_all\<close> on the sample store: a first page of one row, an
  unfiltered listing with a marker, and a listing of story 2 with a marker of that
  story, the only one of the three that is answered with an \<open>X-Marker\<close> header.
\<close>

lemma demo_page1:
  "get_all table_page demo_conf demo_world fresh_response None None None (Some 1) None None =
     Inr ([demo_task 1 1 ''parse''],
          \<lparr>headers = [''X-Limit'' \<mapsto> ''1'', ''X-Total'' \<mapsto> ''3''], status_code = 200\<rparr>)"
  by (simp add: get_all_def table_page_def demo_conf_def demo_world_def fresh_response_def
      demo_task_def effective_limit_def resolve_marker_def task_get_def task_get_count_def
      matches_def from_db_model_def str_def str_nat.simps digit_char_def)

lemma demo_page2:
  "get_all table_page demo_conf demo_world fresh_response None None (Some 2) None None None =
     Inr ([demo_task 1 1 ''parse'', demo_task 2 2 ''print'', demo_task 7 3 ''ship''],
          \<lparr>headers = [''X-Limit'' \<mapsto> ''20'', ''X-Total'' \<mapsto> ''3''], status_code = 200\<rparr>)"
  by (simp add: get_all_def table_page_def demo_conf_def demo_world_def fresh_response_def
      demo_task_def effective_limit_def resolve_marker_def task_get_def task_get_count_def
      matches_def from_db_model_def str_def str_nat.simps digit_char_def)

lemma demo_page3:
  "get_all table_page demo_conf demo_world fresh_response (Some 2) None (Some 2) None None None =
     Inr ([],
          \<lparr>headers = [''X-Limit'' \<mapsto> ''20'', ''X-Total'' \<mapsto> ''1'', ''X-Marker'' \<mapsto> ''2''],
           status_code = 200\<rparr>)"
  by (simp add: get_all_def table_page_def demo_conf_def demo_world_def fresh_response_def
      demo_task_def effective_limit_def resolve_marker_def task_get_def task_get_count_def
      matches_def from_db_model_def str_def str_nat.simps digit_char_def)


theorem total_count_ignores_pagination_witness:
  "get_all table_page demo_conf demo_world fresh_response None None None (Some 1) None None =
     Inr ([demo_task 1 1 ''parse''],
          \<lparr>headers = [''X-Limit'' \<mapsto> ''1'', ''X-Total'' \<mapsto> ''3''], status_code = 200\<rparr>) \<and>
   get_all table_page demo_conf demo_world fresh_response None None (Some 2) None None None =
     Inr ([demo_task 1 1 ''parse'', demo_task 2 2 ''print'', demo_task 7 3 ''ship''],
          \<lparr>headers = [''X-Limit'' \<mapsto> ''20'', ''X-Total'' \<mapsto> ''3''], status_code = 200\<rparr>) \<and>
   headers \<lparr>headers = [''X-Limit'' \<mapsto> ''1'', ''X-Total'' \<mapsto> ''3''], status_code = 200\<rparr> ''X-Total'' =
   headers \<lparr>headers = [''X-Limit'' \<mapsto> ''20'', ''X-Total'' \<mapsto> ''3''], status_code = 200\<rparr> ''X-Total''"
  using total_count_ignores_pagination [OF demo_page1 demo_page2] demo_page1 demo_page2
  by simp

text \<open>
  The test of the marker is Python's \<open>!=\<close> between the story of the marker's task
  and the story filter, both of which may be absent: a task stored without a story
  passes it when the request has no story filter.
\<close>

lemma marker_without_story_is_honoured:
  "task_get w (Some m) = Some t \<Longrightarrow> story_id t = None \<Longrightarrow>
   resolve_marker w None (Some m) = Some t"
  by (simp add: resolve_marker_def)

text \<open>
  Claim C9, as stated, says that in a listing without story filter a marker is always
  dropped and no \<open>X-Marker\<close> header is ever returned. A task stored without a story
  is a marker that such a listing keeps: the page starts after it and \<open>X-Marker\<close> is
  returned, where the listing without a marker returns all four rows and no such
  header.
\<close>

lemma storyless_world_rows:
  "storyless_world =
     \<lparr>rows = [demo_task 1 1 ''parse'', demo_task 2 2 ''print'', demo_task 7 3 ''ship'',
              (demo_task 8 3 ''plan'')\<lparr>story_id := None\<rparr>],
      next_id = 9,
      journal = [Row_inserted 8, Emitted (task_created None ''plan'' 42)]\<rparr>"
  by (simp add: storyless_world_def post_def task_create_def as_dict_def task_created_event_def
      emit_def demo_world_def demo_request_def demo_task_def Let_def)

theorem storyless_marker_is_kept_counterexample:
  "task_get storyless_world (Some 8) = Some ((demo_task 8 3 ''plan'')\<lparr>story_id := None\<rparr>) \<and>
   get_all table_page demo_conf storyless_world fresh_response None None (Some 8) None None None =
     Inr ([],
          \<lparr>headers = [''X-Limit'' \<mapsto> ''20'', ''X-Total'' \<mapsto> ''4'', ''X-Marker'' \<mapsto> ''8''],
           status_code = 200\<rparr>) \<and>
   get_all table_page demo_conf storyless_world fresh_response None None None None None None =
     Inr ([demo_task 1 1 ''parse'', demo_task 2 2 ''print'', demo_task 7 3 ''ship'',
           (demo_task 8 3 ''plan'')\<lparr>story_id := None\<rparr>],
          \<lparr>headers = [''X-Limit'' \<mapsto> ''20'', ''X-Total'' \<mapsto> ''4''], status_code = 200\<rparr>)"
  by (simp add: storyless_world_rows get_all_def table_page_def demo_conf_def
      fresh_response_def demo_task_def effective_limit_def resolve_marker_def task_get_def
      task_get_count_def matches_def from_db_model_def str_def str_nat.simps digit_char_def)

text \<open>
  Claim C9, amended. In a listing without story filter a supplied marker is dropped
  exactly when it resolves to no task or to a task that has a story. Then, also when
  the marker resolves to an existing task, \<open>get_all\<close> answers as it does without a
  marker and sets no \<open>X-Marker\<close> header.
\<close>

theorem unfiltered_listing_discards_marker:
  "(resolve_marker w None (Some m) = None \<longleftrightarrow>
      (\<forall>t. task_get w (Some m) = Some t \<longrightarrow> story_id t \<noteq> None)) \<and>
   ((\<forall>t. task_get w (Some m) = Some t \<longrightarrow> story_id t \<noteq> None) \<longrightarrow>
      get_all q CONF w resp None assignee (Some m) limit sort_field sort_dir =
      get_all q CONF w resp None assignee None limit sort_field sort_dir \<and>
      (case get_all q CONF w resp None assignee (Some m) limit sort_field sort_dir of
         Inl e \<Rightarrow> True
       | Inr (page, r) \<Rightarrow> headers r ''X-Marker'' = headers resp ''X-Marker''))"
proof -
  have dropped: "resolve_marker w None (Some m) = None \<longleftrightarrow>
      (\<forall>t. task_get w (Some m) = Some t \<longrightarrow> story_id t \<noteq> None)"
    by (cases "task_get w (Some m)") (simp_all add: resolve_marker_def)
  have "get_all q CONF w resp None assignee (Some m) limit sort_field sort_dir =
      get_all q CONF w resp None assignee None limit sort_field sort_dir"
    if "resolve_marker w None (Some m) = None"
    using that by (intro get_all_marker_cong) (simp add: resolve_marker_None)
  moreover have "headers r ''X-Marker'' = headers resp ''X-Marker''"
    if "resolve_marker w None (Some m) = None"
      and "get_all q CONF w resp None assignee (Some m) limit sort_field sort_dir = Inr (page, r)"
    for page r
    using get_all_headers(3) [OF that(2)] that(1) by simp
  ultimately show ?thesis
    using dropped by (auto split: sum.splits)
qed

lemma demo_task_get:
  "task_get demo_world (Some 2) = Some (demo_task 2 2 ''print'')"
  "task_get demo_world (Some 7) = Some (demo_task 7 3 ''ship'')"
  "task_get demo_world (Some 99) = None"
  by (simp_all add: task_get_def demo_world_def demo_task_def)

theorem unfiltered_listing_discards_marker_witness:
  "task_get demo_world (Some 2) = Some (demo_task 2 2 ''print'') \<and>
   story_id (demo_task 2 2 ''print'') \<noteq> None \<and>
   get_all table_page demo_conf demo_world fresh_response None None (Some 2) None None None =
   get_all table_page demo_conf demo_world fresh_response None None None None None None \<and>
   get_all table_page demo_conf demo_world fresh_response None None (Some 2) None None None =
     Inr ([demo_task 1 1 ''parse'', demo_task 2 2 ''print'', demo_task 7 3 ''ship''],
          \<lparr>headers = [''X-Limit'' \<mapsto> ''20'', ''X-Total'' \<mapsto> ''3''], status_code = 200\<rparr>) \<and>
   headers \<lparr>headers = [''X-Limit'' \<mapsto> ''20'', ''X-Total'' \<mapsto> ''3''], status_code = 200\<rparr>
     ''X-Marker'' = None"
proof -
  have h: "\<forall>t. task_get demo_world (Some 2) = Some t \<longrightarrow> story_id t \<noteq> None"
    by (simp add: demo_task_get demo_task_def)
  have s: "story_id (demo_task 2 2 ''print'') \<noteq> None"
    by (simp add: demo_task_def)
  from unfiltered_listing_discards_marker
      [of demo_world 2 table_page demo_conf fresh_response None None None None,
       THEN conjunct2, THEN mp, OF h]
    demo_task_get(1) s demo_page2 show ?thesis by simp
qed


subsection \<open>Timeline events of an update\<close>

text \<open>
  Claim C4. When status, priority and assignee of the original and of the updated
  task agree, whatever the other fields are, \<open>_post_timeline_events\<close> emits exactly
  one event, of kind \<open>task_details_changed\<close>, and changes nothing else.
\<close>

theorem untracked_change_emits_details_changed:
  assumes "status original_task = status updated_task"
      and "priority original_task = priority updated_task"
      and "assignee_id original_task = assignee_id updated_task"
  shows "post_timeline_events req original_task updated_task w =
         w\<lparr>journal := journal w @
              [Emitted (task_details_changed (story_id original_task) (title original_task)
                          (current_user_id req))]\<rparr>"
  using assms
  by (simp add: post_timeline_events_def task_details_changed_event_def emit_def)

theorem untracked_change_emits_details_changed_witness:
  "status (demo_task 1 1 ''parse'') = status (demo_task 1 1 ''parse, then check'') \<and>
   priority (demo_task 1 1 ''parse'') = priority (demo_task 1 1 ''parse, then check'') \<and>
   assignee_id (demo_task 1 1 ''parse'') = assignee_id (demo_task 1 1 ''parse, then check'') \<and>
   title (demo_task 1 1 ''parse'') \<noteq> title (demo_task 1 1 ''parse, then check'') \<and>
   journal (post_timeline_events demo_request (demo_task 1 1 ''parse'')
              (demo_task 1 1 ''parse, then check'') demo_world) =
     [Emitted (task_details_changed (Some 1) ''parse'' 42)]"
  using untracked_change_emits_details_changed
    [of "demo_task 1 1 ''parse''" "demo_task 1 1 ''parse, then check''" demo_request demo_world]
  by (simp add: demo_task_def demo_world_def demo_request_def)

text \<open>
  Claim C5. When status and assignee differ and the priority does not, exactly two
  events are emitted, \<open>task_status_changed\<close> and then \<open>task_assignee_changed\<close>,
  each with its own old and new value, and no \<open>task_details_changed\<close>. In general
  the events emitted are one for each differing tracked field, in the order status,
  priority, assignee, and the fallback event exactly when none of the three differs.
\<close>

theorem each_tracked_difference_emits_its_own_event:
  "(status original_task \<noteq> status updated_task \<and>
    priority original_task = priority updated_task \<and>
    assignee_id original_task \<noteq> assignee_id updated_task \<longrightarrow>
      post_timeline_events req original_task updated_task w =
      w\<lparr>journal := journal w @
           [Emitted (task_status_changed (story_id original_task) (title original_task)
                       (current_user_id req) (status original_task) (status updated_task)),
            Emitted (task_assignee_changed (story_id original_task) (title original_task)
                       (current_user_id req) (assignee_id original_task)
                       (assignee_id updated_task))]\<rparr>) \<and>
   post_timeline_events req original_task updated_task w =
     w\<lparr>journal := journal w @ map Emitted
          ((if status original_task \<noteq> status updated_task
            then [task_status_changed (story_id original_task) (title original_task)
                    (current_user_id req) (status original_task) (status updated_task)]
            else []) @
           (if priority original_task \<noteq> priority updated_task
            then [task_priority_changed (story_id original_task) (title original_task)
                    (current_user_id req) (priority original_task) (priority updated_task)]
            else []) @
           (if assignee_id original_task \<noteq> assignee_id updated_task
            then [task_assignee_changed (story_id original_task) (title original_task)
                    (current_user_id req) (assignee_id original_task)
                    (assignee_id updated_task)]
            else []) @
           (if status original_task = status updated_task \<and>
               priority original_task = priority updated_task \<and>
               assignee_id original_task = assignee_id updated_task
            then [task_details_changed (story_id original_task) (title original_task)
                    (current_user_id req)]
            else []))\<rparr>"
  by (simp add: post_timeline_events_def task_status_changed_event_def
      task_priority_changed_event_def task_assignee_changed_event_def
      task_details_changed_event_def emit_def Let_def)

theorem each_tracked_difference_emits_its_own_event_witness:
  "status (demo_task 1 1 ''parse'') \<noteq>
     status ((demo_task 1 1 ''parse'')\<lparr>status := ''review'', assignee_id := Some 5\<rparr>) \<and>
   priority (demo_task 1 1 ''parse'') =
     priority ((demo_task 1 1 ''parse'')\<lparr>status := ''review'', assignee_id := Some 5\<rparr>) \<and>
   assignee_id (demo_task 1 1 ''parse'') \<noteq>
     assignee_id ((demo_task 1 1 ''parse'')\<lparr>status := ''review'', assignee_id := Some 5\<rparr>) \<and>
   journal (post_timeline_events demo_request (demo_task 1 1 ''parse'')
              ((demo_task 1 1 ''parse'')\<lparr>status := ''review'', assignee_id := Some 5\<rparr>)
              demo_world) =
     [Emitted (task_status_changed (Some 1) ''parse'' 42 ''todo'' ''review''),
      Emitted (task_assignee_changed (Some 1) ''parse'' 42 None (Some 5))]"
  using each_tracked_difference_emits_its_own_event
    [of "demo_task 1 1 ''parse''"
        "(demo_task 1 1 ''parse'')\<lparr>status := ''review'', assignee_id := Some 5\<rparr>"
        demo_request demo_world]
  by (simp add: demo_task_def demo_world_def demo_request_def)

subsection \<open>Creating a task\<close>

text \<open>
  Claim C6. Two runs of \<open>post\<close> that differ only in the \<open>creator_id\<close> of the
  request body have the same result and leave the same store. The task returned is
  the one row added to the table, and its \<open>creator_id\<close> is the id of the acting
  user.
\<close>

theorem post_stores_acting_user_as_creator:
  "post req w (body\<lparr>creator_id := c\<rparr>) = post req w (body\<lparr>creator_id := d\<rparr>) \<and>
   (\<exists>created.
      fst (post req w body) = created \<and>
      rows (snd (post req w body)) = rows w @ [created] \<and>
      creator_id created = Some (current_user_id req) \<and>
      created = body\<lparr>ident := next_id w, creator_id := Some (current_user_id req)\<rparr>)"
  by (simp add: post_def task_create_def as_dict_def from_db_model_def
      task_created_event_def emit_def Let_def)

theorem post_stores_acting_user_as_creator_witness:
  "post demo_request demo_world ((demo_task 0 3 ''plan'')\<lparr>creator_id := Some 999\<rparr>) =
   post demo_request demo_world ((demo_task 0 3 ''plan'')\<lparr>creator_id := None\<rparr>) \<and>
   current_user_id demo_request = 42 \<and>
   creator_id (fst (post demo_request demo_world
                      ((demo_task 0 3 ''plan'')\<lparr>creator_id := Some 999\<rparr>))) = Some 42 \<and>
   creator_id (last (rows (snd (post demo_request demo_world
                                  ((demo_task 0 3 ''plan'')\<lparr>creator_id := Some 999\<rparr>))))) = Some 42"
proof -
  note run = post_stores_acting_user_as_creator
    [where req = demo_request and w = demo_world
       and body = "(demo_task 0 3 ''plan'')\<lparr>creator_id := Some 999\<rparr>"
       and c = "Some 999" and d = None]
  have user: "current_user_id demo_request = 42"
    by (simp add: demo_request_def)
  note same = run [THEN conjunct1] and stored = run [THEN conjunct2]
  from stored user have "creator_id (fst (post demo_request demo_world
      ((demo_task 0 3 ''plan'')\<lparr>creator_id := Some 999\<rparr>))) = Some 42"
    by simp
  moreover from stored user have "creator_id (last (rows (snd (post demo_request demo_world
      ((demo_task 0 3 ''plan'')\<lparr>creator_id := Some 999\<rparr>))))) = Some 42"
    by simp
  moreover from same have "post demo_request demo_world ((demo_task 0 3 ''plan'')\<lparr>creator_id := Some 999\<rparr>) =
      post demo_request demo_world ((demo_task 0 3 ''plan'')\<lparr>creator_id := None\<rparr>)"
    by simp
  ultimately show ?thesis
    using user by blast
qed

subsection \<open>Reading one task\<close>

text \<open>
  Claim C8. \<open>get_one\<close> returns the task stored under the id when the store resolves
  it, and otherwise fails with a client-side error of status 404; the error kind
  \<open>NotFound\<close> is a client-side error that always carries status 404.
\<close>

theorem get_one_returns_task_or_404:
  "(task_get w (Some task_id) = Some t \<longrightarrow> get_one w task_id = Inr t \<and> ident t = task_id) \<and>
   (task_get w' (Some task_id') = None \<longrightarrow>
      (\<exists>m. get_one w' task_id' = Inl (ClientSideError m (Some 404)))) \<and>
   (\<exists>m. NotFound message = ClientSideError m (Some 404)) \<and>
   code (NotFound message) = Some 404"
proof -
  have "ident t = task_id" if "task_get w (Some task_id) = Some t"
    using that by (auto simp add: task_get_def find_Some_iff)
  then show ?thesis
    by (simp add: get_one_def from_db_model_def NotFound_def StoryboardException_def)
qed

theorem get_one_returns_task_or_404_witness:
  "task_get demo_world (Some 7) = Some (demo_task 7 3 ''ship'') \<and>
   get_one demo_world 7 = Inr (demo_task 7 3 ''ship'') \<and>
   task_get demo_world (Some 99) = None \<and>
   (\<exists>m. get_one demo_world 99 = Inl (ClientSideError m (Some 404)))"
  using get_one_returns_task_or_404 [of demo_world 7 "demo_task 7 3 ''ship''" demo_world 99]
    demo_task_get by simp

subsection \<open>Deleting a task\<close>

lemma task_get_after_delete: "task_get (task_delete task_id w) (Some task_id) = None"
  by (simp add: task_get_def task_delete_def find_None_iff)

lemma task_get_after_event:
  "task_get (task_deleted_event story task_title author_id w) task_id = task_get w task_id"
  by (simp add: task_get_def task_deleted_event_def emit_def split: option.splits)

text \<open>
  Claim C7. Deleting an existing task has exactly two effects, in this order: one
  \<open>task_deleted\<close> event carrying the story and the title of the task as they were
  before the deletion, emitted while the task is still in the store, and then the
  removal of the row, after which the id no longer resolves. The body sets the
  response status to 204, but the handler is exposed without \<open>status_code=\<close>, so
  the status it answers with is 200 and not the 204 of the claim.
\<close>

theorem delete_emits_one_event_and_answers_200:
  assumes "task_get w (Some task_id) = Some t"
  shows "\<exists>w' resp' body_resp.
           delete req w resp task_id = Inr (w', resp') \<and>
           journal w' = journal w @
             [Emitted (task_deleted (story_id t) (title t) (current_user_id req)),
              Row_deleted task_id] \<and>
           task_get (task_deleted_event (story_id t) (title t) (current_user_id req) w)
             (Some task_id) = Some t \<and>
           rows w' = filter (\<lambda>x. ident x \<noteq> task_id) (rows w) \<and>
           task_get w' (Some task_id) = None \<and>
           delete_body req w resp task_id = Inr (w', body_resp) \<and>
           status_code body_resp = 204 \<and>
           status_code resp' = 200 \<and>
           status_code resp' \<noteq> 204"
proof -
  let ?w1 = "task_deleted_event (story_id t) (title t) (current_user_id req) w"
  have body: "delete_body req w resp task_id =
      Inr (task_delete task_id ?w1, resp\<lparr>status_code := 204\<rparr>)"
    using assms by (simp add: delete_body_def)
  then have run: "delete req w resp task_id =
      Inr (task_delete task_id ?w1, resp\<lparr>status_code := 200\<rparr>)"
    by (simp add: delete_def wsexpose_def)
  have "journal (task_delete task_id ?w1) = journal w @
      [Emitted (task_deleted (story_id t) (title t) (current_user_id req)), Row_deleted task_id]"
    by (simp add: task_delete_def task_deleted_event_def emit_def)
  moreover have "rows (task_delete task_id ?w1) = filter (\<lambda>x. ident x \<noteq> task_id) (rows w)"
    by (simp add: task_delete_def task_deleted_event_def emit_def)
  moreover have "task_get ?w1 (Some task_id) = Some t"
    using assms by (simp add: task_get_after_event)
  ultimately show ?thesis
    using body run task_get_after_delete [of task_id ?w1] by simp
qed

theorem delete_emits_one_event_and_answers_200_witness:
  "task_get demo_world (Some 7) = Some (demo_task 7 3 ''ship'') \<and>
   delete demo_request demo_world fresh_response 7 =
     Inr (\<lparr>rows = [demo_task 1 1 ''parse'', demo_task 2 2 ''print''], next_id = 8,
           journal = [Emitted (task_deleted (Some 3) ''ship'' 42), Row_deleted 7]\<rparr>,
          \<lparr>headers = Map.empty, status_code = 200\<rparr>) \<and>
   delete_body demo_request demo_world fresh_response 7 =
     Inr (\<lparr>rows = [demo_task 1 1 ''parse'', demo_task 2 2 ''print''], next_id = 8,
           journal = [Emitted (task_deleted (Some 3) ''ship'' 42), Row_deleted 7]\<rparr>,
          \<lparr>headers = Map.empty, status_code = 204\<rparr>)"
proof -
  have body: "delete_body demo_request demo_world fresh_response 7 =
     Inr (\<lparr>rows = [demo_task 1 1 ''parse'', demo_task 2 2 ''print''], next_id = 8,
           journal = [Emitted (task_deleted (Some 3) ''ship'' 42), Row_deleted 7]\<rparr>,
          \<lparr>headers = Map.empty, status_code = 204\<rparr>)"
    by (simp add: delete_body_def task_get_def task_deleted_event_def emit_def task_delete_def
        demo_world_def demo_task_def demo_request_def fresh_response_def)
  then have run: "delete demo_request demo_world fresh_response 7 =
     Inr (\<lparr>rows = [demo_task 1 1 ''parse'', demo_task 2 2 ''print''], next_id = 8,
           journal = [Emitted (task_deleted (Some 3) ''ship'' 42), Row_deleted 7]\<rparr>,
          \<lparr>headers = Map.empty, status_code = 200\<rparr>)"
    by (simp add: delete_def wsexpose_def)
  from delete_emits_one_event_and_answers_200 [OF demo_task_get(2), of demo_request fresh_response]
    demo_task_get(2) body run show ?thesis by simp
qed

text \<open>
  Claim C10. \<open>delete\<close> has no guarded not-found branch. On an id that the store
  does not resolve it fails with the \<open>AttributeError\<close> of reading \<open>story_id\<close> from
  \<open>None\<close>; it never fails with a client-side error, whatever its message and status,
  and it completes exactly when the task exists.
\<close>

theorem delete_of_missing_task_is_unguarded:
  "(task_get w (Some task_id) = None \<longrightarrow>
      delete req w resp task_id = Inl (AttributeError ''story_id'')) \<and>
   delete req w resp task_id \<noteq> Inl (ClientSideError m c) \<and>
   ((\<exists>r. delete req w resp task_id = Inr r) \<longleftrightarrow> task_get w (Some task_id) \<noteq> None)"
  by (auto simp add: delete_def delete_body_def wsexpose_def split: option.splits)

theorem delete_of_missing_task_is_unguarded_witness:
  "task_get demo_world (Some 99) = None \<and>
   delete demo_request demo_world fresh_response 99 = Inl (AttributeError ''story_id'') \<and>
   delete demo_request demo_world fresh_response 99 \<noteq> Inl (ClientSideError None (Some 404)) \<and>
   task_get demo_world (Some 7) \<noteq> None \<and>
   (\<exists>r. delete demo_request demo_world fresh_response 7 = Inr r)"
  using delete_of_missing_task_is_unguarded
      [of demo_world 99 demo_request fresh_response None "Some 404"]
    delete_of_missing_task_is_unguarded
      [of demo_world 7 demo_request fresh_response None "Some 404"]
    demo_task_get by simp

end
